theory Spec2Isabelle
  imports Main "HOL-Library.Word"
begin

unbundle bit_operations_syntax

section \<open>Shared data model\<close>

text \<open>
  Python exceptions that the modelled functions can raise. A function that can raise
  returns \<open>error + 'a\<close>, with \<open>Inl\<close> carrying the exception. \<open>EmptyImageError\<close>
  stands for what Pillow raises when it is asked to save an image that has no pixels
  (SystemError or ValueError, depending on its version).
\<close>

datatype error =
    IndexError | KeyError | TypeError | ValueError | AssertionError | AttributeError
  | ZeroDivisionError | ValidationError | EmptyImageError

text \<open>
  \<open>Image.save\<close> of Pillow, on an image given as its rows: it raises when the image has
  no pixels (height or width 0). What is saved otherwise is the image itself.
\<close>

definition pil_save :: "'a list list \<Rightarrow> error + 'a list list" where
  "pil_save img = (if concat img = [] then Inl EmptyImageError else Inr img)"

text \<open>\<open>RGB = Tuple[int, int, int]\<close> of \<open>export.py\<close>: a triple of Python integers.\<close>

type_synonym RGB = "int \<times> int \<times> int"

text \<open>
  An instance annotation of a sample, a dictionary with the keys \<open>id\<close>, \<open>category_id\<close>,
  \<open>type\<close> and \<open>points\<close>. The coordinates in \<open>points\<close> are JSON numbers; their type is
  the parameter \<open>'n\<close>.
\<close>

record 'n annotation =
  id_ann :: int
  category_id :: int
  type_ann :: string
  points :: "'n list list"

text \<open>A label raster: a two-dimensional array of \<open>numpy.uint32\<close>, as a list of rows.\<close>

type_synonym raster = "32 word list list"

section \<open>Id/Color codec (\<open>export.py\<close>)\<close>

text \<open>
  \<open>id2rgb\<close>, the branch for a Python integer: three rounds of
  \<open>color.append(id_map % 256); id_map //= 256\<close>. Python's \<open>%\<close> and \<open>//\<close> round
  towards minus infinity, as \<open>mod\<close> and \<open>div\<close> on \<open>int\<close> do.
\<close>

definition id2rgb :: "int \<Rightarrow> RGB" where
  "id2rgb id_map =
     (let r = id_map mod 256; id_map1 = id_map div 256;
          g = id_map1 mod 256; id_map2 = id_map1 div 256;
          b = id_map2 mod 256
      in (r, g, b))"

text \<open>
  The argument of \<open>rgb2id\<close>. The source tests \<open>isinstance(color, np.ndarray) and
  len(color.shape) == 3\<close>; the cases modelled are
  \<^item> \<open>Triple\<close>: a tuple of three Python integers (the type \<open>RGB\<close>);
  \<^item> \<open>Array2\<close>: a two-dimensional array of shape \<open>N \<times> 3\<close>, one triple per row
    (default integer dtype);
  \<^item> \<open>Array3_uint8\<close>: a three-dimensional \<open>uint8\<close> array, rows of pixels, each pixel
    the list of its channels;
  \<^item> \<open>Array3_int32\<close>: the same with dtype \<open>int32\<close>.
\<close>

datatype color_arg =
    Triple RGB
  | Array2 "RGB list"
  | Array3_uint8 "8 word list list list"
  | Array3_int32 "32 word list list list"

text \<open>What \<open>rgb2id\<close> returns: a Python integer, or a two-dimensional \<open>int32\<close> array.\<close>

datatype id_result = PyInt int | IdMap "32 word list list"

text \<open>
  \<open>color[:, :, 0] + 256 * color[:, :, 1] + 256 * 256 * color[:, :, 2]\<close> on an
  \<open>int32\<close> array: the arithmetic is that of \<open>32 word\<close> and wraps around. Slicing
  channel 2 raises IndexError when the last axis is shorter than 3.
\<close>

definition reduce_color_axis :: "32 word list list list \<Rightarrow> error + id_result" where
  "reduce_color_axis color =
     (if list_all (list_all (\<lambda>px. 3 \<le> length px)) color
      then Inr (IdMap (map (map (\<lambda>px. px ! 0 + 256 * px ! 1 + 256 * 256 * px ! 2)) color))
      else Inl IndexError)"

text \<open>
  \<open>rgb2id\<close>. A three-dimensional array is reduced along its last axis, after
  \<open>astype(np.int32)\<close> when its dtype is \<open>uint8\<close>. Everything else reaches
  \<open>int(color[0] + 256 * color[1] + 256 * 256 * color[2])\<close>: on a tuple this is integer
  arithmetic; on an \<open>N \<times> 3\<close> array \<open>color[k]\<close> is row \<open>k\<close> (IndexError when
  \<open>N < 3\<close>), the sum is an array of three elements, and \<open>int\<close> of it raises TypeError.
\<close>

fun rgb2id :: "color_arg \<Rightarrow> error + id_result" where
  "rgb2id (Array3_uint8 color) = reduce_color_axis (map (map (map ucast)) color)"
| "rgb2id (Array3_int32 color) = reduce_color_axis color"
| "rgb2id (Triple (r, g, b)) = Inr (PyInt (r + 256 * g + 256 * 256 * b))"
| "rgb2id (Array2 rows) = (if length rows < 3 then Inl IndexError else Inl TypeError)"

section \<open>Color allocator (\<open>export.py\<close>)\<close>

text \<open>The pydantic model \<open>Category\<close>.\<close>

record Category =
  id_cat :: int
  name_cat :: string
  color :: RGB
  isthing :: bool

text \<open>
  The state of an \<open>IdGenerator\<close> object. The dictionary \<open>categories\<close> is kept as the
  list of its items in insertion order; \<open>map_of\<close> is the lookup by key.
\<close>

record IdGenerator =
  taken_colors :: "RGB set"
  categories :: "(int \<times> Category) list"

text \<open>
  \<open>IdGenerator.__init__\<close>: black is taken, and so is the colour of every category
  with \<open>isthing == 0\<close>.
\<close>

definition IdGenerator_init :: "(int \<times> Category) list \<Rightarrow> IdGenerator" where
  "IdGenerator_init cats =
     \<lparr>taken_colors =
        fold (\<lambda>category taken. if \<not> isthing category then insert (color category) taken else taken)
          (map snd cats) {(0, 0, 0)},
      categories = cats\<rparr>"

text \<open>
  The random source of \<open>np.random\<close> is an infinite sequence \<open>draws\<close> of raw numbers
  and a position in it. \<open>randint low high\<close> maps one raw number into \<open>[low, high)\<close>.
\<close>

definition randint :: "int \<Rightarrow> int \<Rightarrow> nat \<Rightarrow> int" where
  "randint low high raw = low + int raw mod (high - low)"

text \<open>
  \<open>random_color\<close>, local to \<open>get_color\<close>: three offsets from
  \<open>randint(-max_dist, max_dist + 1, size=3)\<close> are added to the base colour and each
  channel is clamped by \<open>np.maximum(0, np.minimum(255, \<dots>))\<close>.
\<close>

definition random_color :: "RGB \<Rightarrow> int \<Rightarrow> (nat \<Rightarrow> nat) \<Rightarrow> nat \<Rightarrow> RGB" where
  "random_color base max_dist draws pos =
     (case base of (r, g, b) \<Rightarrow>
        (max 0 (min 255 (r + randint (- max_dist) (max_dist + 1) (draws pos))),
         max 0 (min 255 (g + randint (- max_dist) (max_dist + 1) (draws (pos + 1)))),
         max 0 (min 255 (b + randint (- max_dist) (max_dist + 1) (draws (pos + 2))))))"

text \<open>
  The \<open>while True\<close> loop of \<open>get_color\<close>: it returns the first candidate that is not
  taken, with the position reached in the random source. The loop has no bound; a run
  that never finds a free colour is \<open>None\<close>.
\<close>

partial_function (option) retry_color ::
  "(nat \<Rightarrow> nat) \<Rightarrow> RGB \<Rightarrow> RGB set \<Rightarrow> nat \<Rightarrow> (RGB \<times> nat) option" where
  "retry_color draws base_color taken pos =
     (let c = random_color base_color 30 draws pos
      in if c \<notin> taken then Some (c, pos + 3)
         else retry_color draws base_color taken (pos + 3))"

text \<open>
  \<open>IdGenerator.get_color\<close>. The result is the returned colour or the exception, the
  generator after the call and the position in the random source; \<open>None\<close> when the
  loop does not end. \<open>self.categories[cat_id]\<close> raises KeyError for an unknown id.
\<close>

definition get_color ::
  "(nat \<Rightarrow> nat) \<Rightarrow> IdGenerator \<Rightarrow> nat \<Rightarrow> int \<Rightarrow> ((error + RGB) \<times> IdGenerator \<times> nat) option" where
  "get_color draws self pos cat_id =
     (case map_of (categories self) cat_id of
        None \<Rightarrow> Some (Inl KeyError, self, pos)
      | Some category \<Rightarrow>
          if \<not> isthing category then Some (Inr (color category), self, pos)
          else let base_color = color category in
            if base_color \<notin> taken_colors self
            then Some (Inr base_color,
                       self\<lparr>taken_colors := insert base_color (taken_colors self)\<rparr>, pos)
            else (case retry_color draws base_color (taken_colors self) pos of
                    None \<Rightarrow> None
                  | Some (c, pos') \<Rightarrow>
                      Some (Inr c, self\<lparr>taken_colors := insert c (taken_colors self)\<rparr>, pos')))"

text \<open>
  \<open>IdGenerator.get_id_and_color\<close>: \<open>get_color\<close>, then \<open>rgb2id\<close> on the colour.
\<close>

definition get_id_and_color ::
  "(nat \<Rightarrow> nat) \<Rightarrow> IdGenerator \<Rightarrow> nat \<Rightarrow> int
     \<Rightarrow> ((error + id_result \<times> RGB) \<times> IdGenerator \<times> nat) option" where
  "get_id_and_color draws self pos cat_id =
     (case get_color draws self pos cat_id of
        None \<Rightarrow> None
      | Some (Inl e, self', pos') \<Rightarrow> Some (Inl e, self', pos')
      | Some (Inr c, self', pos') \<Rightarrow>
          (case rgb2id (Triple c) of
             Inl e \<Rightarrow> Some (Inl e, self', pos')
           | Inr i \<Rightarrow> Some (Inr (i, c), self', pos')))"

text \<open>
  One run: \<open>get_color\<close> called for each id of a list in turn on the same generator,
  stopping at the first exception. The result collects the colours returned.
\<close>

fun run_get_color ::
  "(nat \<Rightarrow> nat) \<Rightarrow> IdGenerator \<Rightarrow> nat \<Rightarrow> int list
     \<Rightarrow> ((error + RGB list) \<times> IdGenerator \<times> nat) option" where
  "run_get_color draws self pos [] = Some (Inr [], self, pos)"
| "run_get_color draws self pos (cat_id # cat_ids) =
     (case get_color draws self pos cat_id of
        None \<Rightarrow> None
      | Some (Inl e, self', pos') \<Rightarrow> Some (Inl e, self', pos')
      | Some (Inr c, self', pos') \<Rightarrow>
          (case run_get_color draws self' pos' cat_ids of
             None \<Rightarrow> None
           | Some (Inl e, self'', pos'') \<Rightarrow> Some (Inl e, self'', pos'')
           | Some (Inr cs, self'', pos'') \<Rightarrow> Some (Inr (c # cs), self'', pos'')))"

section \<open>Semantic raster (\<open>utils.py\<close>)\<close>

text \<open>\<open>max(xs, default=d)\<close>.\<close>

definition py_max_default :: "int list \<Rightarrow> int \<Rightarrow> int" where
  "py_max_default xs d = (case xs of [] \<Rightarrow> d | x # ys \<Rightarrow> fold max ys x)"

text \<open>
  \<open>xs[i] = v\<close> on a Python list: a negative index counts from the end, an index out of
  range raises IndexError.
\<close>

definition py_list_setitem :: "'a list \<Rightarrow> int \<Rightarrow> 'a \<Rightarrow> error + 'a list" where
  "py_list_setitem xs i v =
     (if 0 \<le> i \<and> i < int (length xs) then Inr (xs[nat i := v])
      else if i < 0 \<and> - int (length xs) \<le> i then Inr (xs[nat (int (length xs) + i) := v])
      else Inl IndexError)"

text \<open>
  The loop \<open>for annotation in annotations: instance2semantic[annotation["id"]] =
  annotation["category_id"] + id_increment\<close>.
\<close>

fun fill_table :: "int list \<Rightarrow> 'n annotation list \<Rightarrow> int \<Rightarrow> error + int list" where
  "fill_table instance2semantic [] id_increment = Inr instance2semantic"
| "fill_table instance2semantic (a # as) id_increment =
     (case py_list_setitem instance2semantic (id_ann a) (category_id a + id_increment) of
        Inl e \<Rightarrow> Inl e
      | Inr t \<Rightarrow> fill_table t as id_increment)"

text \<open>
  The array that \<open>get_semantic_bitmap\<close> returns. \<open>np.array\<close> of a list of Python
  integers is a signed 64-bit array when the list is not empty and every entry fits;
  then it holds the entries exactly (\<open>Int64Array\<close>). Otherwise the dtype is
  \<open>uint64\<close>, \<open>float64\<close> or \<open>object\<close>: \<open>NotInt64\<close> carries the integers the
  array was made from, and says nothing about the values as stored (\<open>float64\<close> rounds
  them).
\<close>

datatype semantic_label = Int64Array "64 word list list" | NotInt64 "int list list"

text \<open>
  \<open>np.array(instance2semantic)[index_array]\<close> with a \<open>uint32\<close> index array: the
  table is converted, then every index is looked up; an index beyond the table raises
  IndexError.
\<close>

definition np_take :: "int list \<Rightarrow> raster \<Rightarrow> error + semantic_label" where
  "np_take table bitmap =
     (if \<not> list_all (list_all (\<lambda>v. unat v < length table)) bitmap then Inl IndexError
      else if table \<noteq> [] \<and> list_all (\<lambda>x. - (2 ^ 63) \<le> x \<and> x < 2 ^ 63) table
      then Inr (Int64Array (map (map (\<lambda>v. word_of_int (table ! unat v))) bitmap))
      else Inr (NotInt64 (map (map (\<lambda>v. table ! unat v)) bitmap)))"

text \<open>
  \<open>get_semantic_bitmap\<close>. Python's \<open>None\<close> for either argument is \<open>None\<close> of the
  option type; returning \<open>None\<close> is \<open>Inr None\<close>.
\<close>

definition get_semantic_bitmap ::
  "raster option \<Rightarrow> 'n annotation list option \<Rightarrow> int \<Rightarrow> error + semantic_label option" where
  "get_semantic_bitmap instance_bitmap annotations id_increment =
     (case (instance_bitmap, annotations) of
        (None, _) \<Rightarrow> Inr None
      | (_, None) \<Rightarrow> Inr None
      | (Some bitmap, Some anns) \<Rightarrow>
          (case fill_table
                  (replicate (nat (py_max_default (map id_ann anns) 0 + 1)) 0)
                  anns id_increment of
             Inl e \<Rightarrow> Inl e
           | Inr instance2semantic \<Rightarrow>
               (case np_take instance2semantic bitmap of
                  Inl e \<Rightarrow> Inl e
                | Inr semantic_label \<Rightarrow> Inr (Some semantic_label))))"

section \<open>Lossless packing of a label raster (\<open>utils.py\<close>)\<close>

text \<open>
  The \<open>bitmap\<close> argument of \<open>bitmap2file\<close> with its dtype: the function tells
  \<open>uint32\<close> and \<open>uint8\<close> apart and rejects every other dtype.
\<close>

datatype bitmap_arg = UInt32 raster | UInt8 "8 word list list" | OtherDtype

text \<open>
  \<open>x[:, :, None].view(np.uint8)\<close> reads the four bytes of each \<open>uint32\<close> in memory
  order. The byte order is that of a little-endian host (the order of \<open>id2rgb\<close>: least
  significant byte first).
\<close>

definition view_uint8 :: "32 word \<Rightarrow> 8 word list" where
  "view_uint8 v = [ucast v, ucast (drop_bit 8 v), ucast (drop_bit 16 v), ucast (drop_bit 24 v)]"

text \<open>\<open>.view(np.uint32)\<close> on four bytes, the inverse reading.\<close>

definition view_uint32 :: "8 word list \<Rightarrow> 32 word" where
  "view_uint32 px =
     ucast (px ! 0) OR push_bit 8 (ucast (px ! 1)) OR push_bit 16 (ucast (px ! 2))
       OR push_bit 24 (ucast (px ! 3))"

text \<open>
  \<open>bitmap2file\<close>. Both \<open>assert False\<close> branches raise AssertionError.
  \<open>Image.fromarray(bitmap2).save(f, "PNG")\<close> raises when the raster has no pixels. The
  result stands for the PNG file: the \<open>H \<times> W \<times> 4\<close> array of bytes that was saved,
  which PNG stores without loss.
\<close>

definition bitmap2file :: "bitmap_arg \<Rightarrow> bool \<Rightarrow> error + 8 word list list list" where
  "bitmap2file bitmap is_segmentation_bitmap =
     (case (case bitmap of
              UInt32 b \<Rightarrow> Inr b
            | UInt8 b \<Rightarrow> Inr (map (map ucast) b)
            | OtherDtype \<Rightarrow> Inl AssertionError) of
        Inl e \<Rightarrow> Inl e
      | Inr b \<Rightarrow>
          if is_segmentation_bitmap
          then pil_save (map (map (\<lambda>v. (view_uint8 v)[3 := 255])) b)
          else Inl AssertionError)"

text \<open>
  \<open>extract_bitmap\<close> of \<open>load_label_bitmap_from_url\<close>, on the array of the decoded
  image: \<open>bitmap[:, :, 3] = 0\<close> raises IndexError when there are fewer than four
  channels; \<open>view(np.uint32).squeeze(2)\<close> needs exactly four (ValueError otherwise).
\<close>

definition extract_bitmap :: "8 word list list list \<Rightarrow> error + raster" where
  "extract_bitmap bitmap =
     (if \<not> list_all (list_all (\<lambda>px. 4 \<le> length px)) bitmap then Inl IndexError
      else if \<not> list_all (list_all (\<lambda>px. length px = 4)) bitmap then Inl ValueError
      else Inr (map (map (\<lambda>px. view_uint32 (px[3 := 0]))) bitmap))"

section \<open>Colorized previews (\<open>export.py\<close>)\<close>

text \<open>The built-in palette \<open>COLORMAP\<close> of 36 RGBA entries.\<close>

definition COLORMAP :: "(int \<times> int \<times> int \<times> int) list" where
  "COLORMAP =
     [(0, 113, 188, 255), (216, 82, 24, 255), (236, 176, 31, 255), (125, 46, 141, 255),
      (118, 171, 47, 255), (76, 189, 237, 255), (161, 19, 46, 255), (255, 0, 0, 255),
      (255, 127, 0, 255), (190, 190, 0, 255), (0, 255, 0, 255), (0, 0, 255, 255),
      (170, 0, 255, 255), (84, 84, 0, 255), (84, 170, 0, 255), (84, 255, 0, 255),
      (170, 84, 0, 255), (170, 170, 0, 255), (170, 255, 0, 255), (255, 84, 0, 255),
      (255, 170, 0, 255), (255, 255, 0, 255), (0, 84, 127, 255), (0, 170, 127, 255),
      (0, 255, 127, 255), (84, 0, 127, 255), (84, 84, 127, 255), (84, 170, 127, 255),
      (84, 255, 127, 255), (170, 0, 127, 255), (170, 84, 127, 255), (170, 170, 127, 255),
      (170, 255, 127, 255), (255, 0, 127, 255), (255, 84, 127, 255), (255, 170, 127, 255)]"

text \<open>
  The module-level function \<open>get_color\<close> (not the method of \<open>IdGenerator\<close>):
  \<open>COLORMAP[id % len(COLORMAP)][0:3]\<close>. The index is in range because \<open>%\<close> with a
  positive modulus is never negative.
\<close>

definition colormap_get_color :: "int \<Rightarrow> int list" where
  "colormap_get_color i =
     (case COLORMAP ! nat (i mod int (length COLORMAP)) of (r, g, b, a) \<Rightarrow> [r, g, b])"

text \<open>
  \<open>colored_img[mask] = color\<close> on a \<open>uint8\<close> image with three channels: a sequence
  of three numbers fills the channels, a sequence of one number is broadcast to all
  three, any other length raises ValueError. The numbers are cast to \<open>uint8\<close>.
\<close>

definition np_assign_color :: "int list \<Rightarrow> error + 8 word list" where
  "np_assign_color c =
     (if length c = 3 then Inr (map word_of_int c)
      else if length c = 1 then Inr (replicate 3 (word_of_int (hd c)))
      else Inl ValueError)"

text \<open>
  The loop of \<open>colorize\<close> over the distinct non-zero values of the image, in the
  ascending order of \<open>np.unique\<close>: value \<open>id\<close> takes \<open>colormap[id - 1]\<close>, or
  \<open>get_color(id - 1)\<close> when no colormap is given. The values are at least 1, so
  \<open>id - 1\<close> is never negative; beyond the colormap it raises IndexError.
\<close>

fun colorize_loop ::
  "8 word list \<Rightarrow> 8 word list list \<Rightarrow> int list list option \<Rightarrow> 8 word list list list
     \<Rightarrow> error + 8 word list list list" where
  "colorize_loop [] img colormap colored_img = Inr colored_img"
| "colorize_loop (i # indices) img colormap colored_img =
     (case (case colormap of
              Some cm \<Rightarrow> if unat i - 1 < length cm then Inr (cm ! (unat i - 1)) else Inl IndexError
            | None \<Rightarrow> Inr (colormap_get_color (uint i - 1))) of
        Inl e \<Rightarrow> Inl e
      | Inr c \<Rightarrow>
          (case np_assign_color c of
             Inl e \<Rightarrow> Inl e
           | Inr px \<Rightarrow>
               colorize_loop indices img colormap
                 (map2 (\<lambda>row crow. map2 (\<lambda>v old. if v = i then px else old) row crow)
                    img colored_img)))"

definition colorize :: "8 word list list \<Rightarrow> int list list option \<Rightarrow> error + 8 word list list list" where
  "colorize img colormap =
     colorize_loop (filter (\<lambda>i. i \<noteq> 0) (sort (remdups (concat img)))) img colormap
       (map (map (\<lambda>v. [0, 0, 0])) img)"

section \<open>Paths and text\<close>

text \<open>\<open>os.path.join\<close> of two components on a POSIX system.\<close>

definition path_join :: "string \<Rightarrow> string \<Rightarrow> string" where
  "path_join a b =
     (if b \<noteq> [] \<and> hd b = CHR ''/'' then b
      else if a = [] \<or> last a = CHR ''/'' then a @ b
      else a @ ''/'' @ b)"

text \<open>\<open>os.path.basename\<close>: what follows the last slash.\<close>

definition basename :: "string \<Rightarrow> string" where
  "basename p = rev (takeWhile (\<lambda>c. c \<noteq> CHR ''/'') (rev p))"

text \<open>
  \<open>os.path.splitext(p)[0]\<close> for a name without a slash: the name up to its last dot,
  unless only dots come before that dot (or there is no dot), in which case the whole
  name.
\<close>

definition splitext_root :: "string \<Rightarrow> string" where
  "splitext_root p =
     (let root = rev (drop 1 (dropWhile (\<lambda>c. c \<noteq> CHR ''.'') (rev p)))
      in if CHR ''.'' \<in> set p \<and> list_ex (\<lambda>c. c \<noteq> CHR ''.'') root then root else p)"

text \<open>\<open>str\<close> of a Python integer, as \<open>"{}".format\<close> prints it.\<close>

fun str_nat :: "nat \<Rightarrow> string" where
  "str_nat n =
     (if n < 10 then [char_of (48 + n)] else str_nat (n div 10) @ [char_of (48 + n mod 10)])"

definition str_int :: "int \<Rightarrow> string" where
  "str_int i = (if i < 0 then CHR ''-'' # str_nat (nat (- i)) else str_nat (nat i))"

section \<open>The dataset, as the emitters read it\<close>

text \<open>
  One sample of a \<open>SegmentsDataset\<close>: \<open>image_sample\<close> is the PIL image of the key
  \<open>image\<close>, kept as its \<open>(width, height)\<close>; \<open>segmentation_bitmap\<close> is the label
  raster; \<open>annotations\<close> is the list of instance annotations. Each of the three can be
  \<open>None\<close>.
\<close>

record 'n sample =
  name :: string
  file_name :: string
  image_sample :: "(nat \<times> nat) option"
  segmentation_bitmap :: "raster option"
  annotations :: "'n annotation list option"

text \<open>
  An entry of \<open>dataset.categories\<close>: the keys \<open>color\<close> and \<open>has_instances\<close> are
  optional.
\<close>

record category_json =
  id_json :: int
  name_json :: string
  color_json :: "int list option"
  has_instances :: "bool option"

text \<open>
  What the emitters read of a \<open>SegmentsDataset\<close>: \<open>samples\<close> stands for
  \<open>len(dataset)\<close> and \<open>dataset[i]\<close>; \<open>release_name\<close> and
  \<open>release_dataset_name\<close> are \<open>release["name"]\<close> and \<open>release["dataset"]["name"]\<close>.
\<close>

record 'n dataset =
  task_type :: string
  categories_json :: "category_json list"
  samples :: "'n sample list"
  labelset :: string
  image_dir :: string
  dataset_identifier :: string
  release_name :: string
  release_dataset_name :: string

subsection \<open>What is written\<close>

text \<open>An entry of the \<open>images\<close> list of both COCO documents.\<close>

record image_entry =
  id_image :: nat
  file_name_image :: string
  height_image :: "nat option"
  width_image :: "nat option"

text \<open>
  An entry of the \<open>annotations\<close> list of the COCO instance document. Both kinds carry
  \<open>id\<close>, \<open>image_id\<close> and \<open>category_id\<close>; a mask annotation adds \<open>bbox\<close>,
  \<open>segmentation\<close> and \<open>area\<close> (and \<open>iscrowd = 0\<close>), a box annotation only \<open>bbox\<close>.
\<close>

datatype ('n, 'rle) instance_entry =
    MaskEntry nat nat int "int list" 'rle int
  | BBoxEntry nat nat int "'n list"

record ('n, 'rle) coco_instance_json =
  info_description :: string
  info_version :: string
  categories_instance :: "category_json list"
  images_instance :: "image_entry list"
  annotations_instance :: "('n, 'rle) instance_entry list"

text \<open>An entry of \<open>segments_info\<close> (\<open>iscrowd\<close> is always 0).\<close>

record segment_entry =
  id_segment :: id_result
  category_id_segment :: int
  bbox_segment :: "int list"
  area_segment :: int

record panoptic_entry =
  segments_info :: "segment_entry list"
  file_name_panoptic :: string
  image_id_panoptic :: nat

record coco_panoptic_json =
  info_description_panoptic :: string
  info_version_panoptic :: string
  categories_panoptic :: "Category list"
  images_panoptic :: "image_entry list"
  annotations_panoptic :: "panoptic_entry list"

text \<open>
  The content of a written file: the text of a JSON document, a file that was opened for
  writing and whose write raised (what is left of it depends on the library), the lines
  of a YOLO label file, a label raster saved as it is, an 8-bit RGB image, or the image
  that \<open>img_as_ubyte\<close> made of a semantic raster.
\<close>

datatype 'img file_content =
    JsonText string
  | Incomplete
  | Lines "string list"
  | LabelPng raster
  | RgbPng "8 word list list list"
  | UbytePng 'img

text \<open>The effects on the file system, in the order in which they happen.\<close>

datatype 'img fs_event = MakeDirs string | WriteFile string "'img file_content"

subsection \<open>Library functions\<close>

text \<open>A region of \<open>skimage.measure.regionprops\<close>: its label, bounding box and area.\<close>

record region =
  label :: int
  bbox :: "int \<times> int \<times> int \<times> int"
  area :: int

text \<open>
  The functions of other libraries, and floating-point arithmetic, are parameters of the
  emitters:
  \<^item> \<open>regionprops\<close> of skimage on a label raster;
  \<^item> \<open>mask_encode\<close>: \<open>pycocotools.mask.encode\<close> on a binary mask, with the counts
    decoded to text;
  \<^item> \<open>json_dump_instance\<close>, \<open>json_dump_panoptic\<close>: \<open>json.dump\<close>, which can raise;
  \<^item> \<open>img_as_ubyte\<close> of skimage on what \<open>get_semantic_bitmap\<close> returned;
  \<^item> \<open>np_uint8\<close>: \<open>np.uint8\<close> on an array that is not a signed 64-bit array, given
    as the integers it was made from;
  \<^item> \<open>truediv\<close> (a JSON number divided by a non-zero image dimension), \<open>fadd\<close>,
    \<open>fsub\<close>, \<open>fabs\<close>, \<open>fhalf\<close> (division by 2) on floats and \<open>format6\<close>
    (\<open>"{:.6f}"\<close>).
\<close>

record ('n, 'f, 'rle, 'img) externals =
  regionprops :: "raster \<Rightarrow> region list"
  mask_encode :: "bool list list \<Rightarrow> 'rle"
  json_dump_instance :: "('n, 'rle) coco_instance_json \<Rightarrow> error + string"
  json_dump_panoptic :: "coco_panoptic_json \<Rightarrow> error + string"
  img_as_ubyte :: "semantic_label option \<Rightarrow> error + 'img"
  np_uint8 :: "int list list \<Rightarrow> error + 8 word list list"
  truediv :: "'n \<Rightarrow> nat \<Rightarrow> 'f"
  fadd :: "'f \<Rightarrow> 'f \<Rightarrow> 'f"
  fsub :: "'f \<Rightarrow> 'f \<Rightarrow> 'f"
  fabs :: "'f \<Rightarrow> 'f"
  fhalf :: "'f \<Rightarrow> 'f"
  format6 :: "'f \<Rightarrow> string"

subsection \<open>Loops over the samples\<close>

text \<open>
  A \<open>for\<close> loop whose body can raise: the body returns the exception, if any, and the
  state it reached; the loop stops at the first exception.
\<close>

fun for_each :: "('x \<Rightarrow> 's \<Rightarrow> error option \<times> 's) \<Rightarrow> 'x list \<Rightarrow> 's \<Rightarrow> error option \<times> 's" where
  "for_each body [] s = (None, s)"
| "for_each body (x # xs) s =
     (case body x s of
        (Some e, s') \<Rightarrow> (Some e, s')
      | (None, s') \<Rightarrow> for_each body xs s')"

text \<open>The same for a body that may not return (\<open>None\<close>).\<close>

fun for_each_option ::
  "('x \<Rightarrow> 's \<Rightarrow> (error option \<times> 's) option) \<Rightarrow> 'x list \<Rightarrow> 's \<Rightarrow> (error option \<times> 's) option" where
  "for_each_option body [] s = Some (None, s)"
| "for_each_option body (x # xs) s =
     (case body x s of
        None \<Rightarrow> None
      | Some (Some e, s') \<Rightarrow> Some (Some e, s')
      | Some (None, s') \<Rightarrow> for_each_option body xs s')"

text \<open>
  The entry appended to \<open>images\<close>, and \<open>regions = {region.label: region for region in
  regions}\<close> (a later region with the same label replaces an earlier one).
\<close>

definition image_entry_of :: "nat \<Rightarrow> 'n sample \<Rightarrow> image_entry" where
  "image_entry_of image_id smp =
     \<lparr>id_image = image_id, file_name_image = file_name smp,
      height_image = map_option snd (image_sample smp),
      width_image = map_option fst (image_sample smp)\<rparr>"

definition regions_dict :: "region list \<Rightarrow> int \<Rightarrow> region option" where
  "regions_dict rs = map_of (rev (map (\<lambda>r. (label r, r)) rs))"

text \<open>
  What an emitter returns: the two COCO emitters the path of the JSON document and
  \<open>dataset.image_dir\<close>, the other two \<open>dataset.image_dir\<close>; \<open>export_dataset\<close>
  returns \<open>None\<close> for a format it does not know.
\<close>

datatype export_result = JsonAndDir string string | Dir string | NoResult

section \<open>\<open>export_coco_instance\<close>\<close>

text \<open>
  The loop over the annotations of one sample. For the two bitmap task types an
  annotation whose id is not a label of the raster is skipped; otherwise its entry takes
  the box and area of its region and the encoded mask \<open>bitmap == instance["id"]\<close>. For
  \<open>bboxes\<close> the box comes from \<open>points[0]\<close> and \<open>points[1]\<close> (IndexError when a
  coordinate is missing). Any other task type meets \<open>assert False\<close>.
\<close>

fun coco_instance_annotations ::
  "('n::minus, 'f, 'rle, 'img) externals \<Rightarrow> string \<Rightarrow> raster \<Rightarrow> (int \<Rightarrow> region option) \<Rightarrow> nat
     \<Rightarrow> 'n annotation list \<Rightarrow> ('n, 'rle) instance_entry list \<times> nat
     \<Rightarrow> error + ('n, 'rle) instance_entry list \<times> nat" where
  "coco_instance_annotations X task bitmap regions image_id [] st = Inr st"
| "coco_instance_annotations X task bitmap regions image_id (a # rest) (anns, annotation_id) =
     (if task = ''segmentation-bitmap'' \<or> task = ''segmentation-bitmap-highres'' then
        (case regions (id_ann a) of
           None \<Rightarrow>
             coco_instance_annotations X task bitmap regions image_id rest (anns, annotation_id)
         | Some r \<Rightarrow>
             (case bbox r of (y0, x0, y1, x1) \<Rightarrow>
                coco_instance_annotations X task bitmap regions image_id rest
                  (anns @ [MaskEntry annotation_id image_id (category_id a)
                             [x0, y0, x1 - x0, y1 - y0]
                             (mask_encode X (map (map (\<lambda>v. uint v = id_ann a)) bitmap))
                             (area r)],
                   annotation_id + 1)))
      else if task = ''bboxes'' then
        (if 2 \<le> length (points a) \<and> 2 \<le> length (points a ! 0) \<and> 2 \<le> length (points a ! 1)
         then
           (let x0 = points a ! 0 ! 0; y0 = points a ! 0 ! 1;
                x1 = points a ! 1 ! 0; y1 = points a ! 1 ! 1
            in coco_instance_annotations X task bitmap regions image_id rest
                 (anns @ [BBoxEntry annotation_id image_id (category_id a)
                            [x0, y0, x1 - x0, y1 - y0]],
                  annotation_id + 1))
         else Inl IndexError)
      else Inl AssertionError)"

text \<open>
  The body of the loop over the samples; the state is \<open>images\<close>, \<open>annotations\<close> and
  \<open>annotation_id\<close>. A sample without annotations meets \<open>continue\<close>.
  \<open>np.array(None, np.uint32)\<close> raises TypeError.
\<close>

definition coco_instance_sample ::
  "('n::minus, 'f, 'rle, 'img) externals \<Rightarrow> string \<Rightarrow> nat \<times> 'n sample
     \<Rightarrow> image_entry list \<times> ('n, 'rle) instance_entry list \<times> nat
     \<Rightarrow> error option \<times> image_entry list \<times> ('n, 'rle) instance_entry list \<times> nat" where
  "coco_instance_sample X task ismp st =
     (case ismp of (i, smp) \<Rightarrow>
      case st of (images, anns, annotation_id) \<Rightarrow>
        (case annotations smp of
           None \<Rightarrow> (None, st)
         | Some instances \<Rightarrow>
             (let image_id = i + 1; images' = images @ [image_entry_of image_id smp] in
              case segmentation_bitmap smp of
                None \<Rightarrow> (Some TypeError, (images', anns, annotation_id))
              | Some bitmap \<Rightarrow>
                  (case coco_instance_annotations X task bitmap
                          (regions_dict (regionprops X bitmap)) image_id instances
                          (anns, annotation_id) of
                     Inl e \<Rightarrow> (Some e, (images', anns, annotation_id))
                   | Inr (anns', annotation_id') \<Rightarrow> (None, (images', anns', annotation_id'))))))"

text \<open>
  \<open>export_coco_instance\<close>: the folder is created, the samples are visited in index
  order, and the document is written at the end. The result is what the call returns or
  raises, and the file system effects up to that point.
\<close>

definition export_coco_instance ::
  "('n::minus, 'f, 'rle, 'img) externals \<Rightarrow> 'img fs_event list \<Rightarrow> 'n dataset \<Rightarrow> string
     \<Rightarrow> (error + export_result) \<times> 'img fs_event list" where
  "export_coco_instance X fs ds export_folder =
     (let fs1 = fs @ [MakeDirs export_folder] in
      case for_each (coco_instance_sample X (task_type ds)) (enumerate 0 (samples ds))
             ([], [], 1) of
        (Some e, st) \<Rightarrow> (Inl e, fs1)
      | (None, (images, anns, annotation_id)) \<Rightarrow>
          (let json_data =
                 \<lparr>info_description = release_dataset_name ds, info_version = release_name ds,
                  categories_instance = categories_json ds, images_instance = images,
                  annotations_instance = anns\<rparr>;
               json_file = path_join export_folder
                 (''export_coco-instance_'' @ dataset_identifier ds @ ''_'' @ release_name ds
                    @ ''.json'')
           in case json_dump_instance X json_data of
                Inl e \<Rightarrow> (Inl e, fs1 @ [WriteFile json_file Incomplete])
              | Inr doc \<Rightarrow>
                  (Inr (JsonAndDir json_file (image_dir ds)),
                   fs1 @ [WriteFile json_file (JsonText doc)])))"

section \<open>\<open>export_yolo\<close>\<close>

text \<open>
  The loop over the annotations of one sample, inside \<open>with open(file_name, "w")\<close>; the
  state is the list of lines written so far. Only annotations of type \<open>bbox\<close> are
  written. \<open>[[x0, y0], [x1, y1]] = annotation["points"]\<close> raises ValueError when the
  shape is different; dividing by a zero width or height raises ZeroDivisionError.
\<close>

fun yolo_annotations ::
  "('n, 'f, 'rle, 'img) externals \<Rightarrow> nat \<Rightarrow> nat \<Rightarrow> 'n annotation list \<Rightarrow> string list
     \<Rightarrow> error option \<times> string list" where
  "yolo_annotations X image_width image_height [] written = (None, written)"
| "yolo_annotations X image_width image_height (a # rest) written =
     (if type_ann a = ''bbox'' then
        (case points a of
           [[x0, y0], [x1, y1]] \<Rightarrow>
             if image_width = 0 \<or> image_height = 0 then (Some ZeroDivisionError, written)
             else
               (let x0n = truediv X x0 image_width; x1n = truediv X x1 image_width;
                    y0n = truediv X y0 image_height; y1n = truediv X y1 image_height;
                    x_center = fhalf X (fadd X x0n x1n);
                    y_center = fhalf X (fadd X y0n y1n);
                    width = fabs X (fsub X x1n x0n);
                    height = fabs X (fsub X y1n y0n)
                in yolo_annotations X image_width image_height rest
                     (written @ [str_int (category_id a) @ '' '' @ format6 X x_center @ '' ''
                        @ format6 X y_center @ '' '' @ format6 X width @ '' ''
                        @ format6 X height @ [CHR 0x0A]]))
         | _ \<Rightarrow> (Some ValueError, written))
      else yolo_annotations X image_width image_height rest written)"

text \<open>
  The body of the loop over the samples; the state is the file system. A sample is
  processed only when its annotations are not \<open>None\<close> and not empty. The width of a
  missing image raises AttributeError before the file is opened; an exception inside the
  \<open>with\<close> block leaves the file with the lines written so far.
\<close>

definition yolo_sample ::
  "('n, 'f, 'rle, 'img) externals \<Rightarrow> 'n dataset \<Rightarrow> nat \<times> 'n sample \<Rightarrow> 'img fs_event list
     \<Rightarrow> error option \<times> 'img fs_event list" where
  "yolo_sample X ds ismp fs =
     (case ismp of (i, smp) \<Rightarrow>
        (case annotations smp of
           None \<Rightarrow> (None, fs)
         | Some anns \<Rightarrow>
             if 0 < length anns then
               (case image_sample smp of
                  None \<Rightarrow> (Some AttributeError, fs)
                | Some (image_width, image_height) \<Rightarrow>
                    (let image_name = splitext_root (basename (name smp));
                         txt_file = image_dir ds @ ''/'' @ image_name @ ''.txt''
                     in case yolo_annotations X image_width image_height anns [] of
                          (err, written) \<Rightarrow> (err, fs @ [WriteFile txt_file (Lines written)])))
             else (None, fs)))"

definition export_yolo ::
  "('n, 'f, 'rle, 'img) externals \<Rightarrow> 'img fs_event list \<Rightarrow> 'n dataset \<Rightarrow> string
     \<Rightarrow> (error + export_result) \<times> 'img fs_event list" where
  "export_yolo X fs ds export_folder =
     (if task_type ds \<notin> set [''vector'', ''bboxes''] then (Inl ValueError, fs)
      else case for_each (yolo_sample X ds) (enumerate 0 (samples ds)) fs of
             (Some e, fs') \<Rightarrow> (Inl e, fs')
           | (None, fs') \<Rightarrow> (Inr (Dir (image_dir ds)), fs'))"

section \<open>\<open>export_image\<close>\<close>

text \<open>
  The colormap \<open>[c["color"] for c in categories]\<close>: the first three numbers of a
  category's colour, or the palette entry of its position when it has none.
\<close>

definition image_colormap :: "'n dataset \<Rightarrow> int list list" where
  "image_colormap ds =
     map (\<lambda>(i, c). case color_json c of
                      Some col \<Rightarrow> take 3 col
                    | None \<Rightarrow> colormap_get_color (int i))
       (enumerate 0 (categories_json ds))"

text \<open>The path \<open>{image_dir}/{file_name}_label_{labelset}{variant}\<close> of a label file.\<close>

definition label_path :: "'n dataset \<Rightarrow> 'n sample \<Rightarrow> string \<Rightarrow> string" where
  "label_path ds smp variant =
     path_join (image_dir ds)
       (splitext_root (basename (name smp)) @ ''_label_'' @ labelset ds @ variant)"

text \<open>
  \<open>np.uint8\<close> of the semantic raster: a signed 64-bit array keeps the low byte of each
  value.
\<close>

definition uint8_of_label ::
  "('n, 'f, 'rle, 'img) externals \<Rightarrow> semantic_label \<Rightarrow> error + 8 word list list" where
  "uint8_of_label X semantic_label =
     (case semantic_label of
        Int64Array a \<Rightarrow> Inr (map (map ucast) a)
      | NotInt64 a \<Rightarrow> np_uint8 X a)"

text \<open>Whether the array that \<open>get_semantic_bitmap\<close> returned has no element.\<close>

definition label_empty :: "semantic_label option \<Rightarrow> bool" where
  "label_empty semantic_label =
     (case semantic_label of
        None \<Rightarrow> False
      | Some (Int64Array a) \<Rightarrow> concat a = []
      | Some (NotInt64 a) \<Rightarrow> concat a = [])"

text \<open>
  The body of the loop over the samples; the state is the file system. \<open>None.save\<close>
  raises AttributeError and \<open>np.uint8(None)\<close> raises TypeError. \<open>np.uint8\<close> of a
  label raster keeps the low byte of each value; \<open>img_as_ubyte\<close> leaves a \<open>uint8\<close>
  image as it is and keeps the shape of any image. Saving an image without pixels raises.
  A format that is none of the four writes nothing.
\<close>

definition export_image_sample ::
  "('n, 'f, 'rle, 'img) externals \<Rightarrow> 'n dataset \<Rightarrow> string \<Rightarrow> int \<Rightarrow> nat \<times> 'n sample
     \<Rightarrow> 'img fs_event list \<Rightarrow> error option \<times> 'img fs_event list" where
  "export_image_sample X ds export_format id_increment ismp fs =
     (case ismp of (i, smp) \<Rightarrow>
        (case annotations smp of
           None \<Rightarrow> (None, fs)
         | Some anns \<Rightarrow>
             if export_format = ''instance'' then
               (case segmentation_bitmap smp of
                  None \<Rightarrow> (Some AttributeError, fs)
                | Some instance_label \<Rightarrow>
                    (case pil_save instance_label of
                       Inl e \<Rightarrow>
                         (Some e, fs @ [WriteFile (label_path ds smp ''_instance.png'')
                                          Incomplete])
                     | Inr saved \<Rightarrow>
                         (None, fs @ [WriteFile (label_path ds smp ''_instance.png'')
                                        (LabelPng saved)])))
             else if export_format = ''instance-color'' then
               (case segmentation_bitmap smp of
                  None \<Rightarrow> (Some TypeError, fs)
                | Some instance_label \<Rightarrow>
                    (case colorize (map (map ucast) instance_label) None of
                       Inl e \<Rightarrow> (Some e, fs)
                     | Inr colored \<Rightarrow>
                         (case pil_save colored of
                            Inl e \<Rightarrow>
                              (Some e,
                               fs @ [WriteFile (label_path ds smp ''_instance_colored.png'')
                                       Incomplete])
                          | Inr saved \<Rightarrow>
                              (None,
                               fs @ [WriteFile (label_path ds smp ''_instance_colored.png'')
                                       (RgbPng saved)]))))
             else if export_format = ''semantic'' then
               (case get_semantic_bitmap (segmentation_bitmap smp) (Some anns) id_increment of
                  Inl e \<Rightarrow> (Some e, fs)
                | Inr semantic_label \<Rightarrow>
                    (case img_as_ubyte X semantic_label of
                       Inl e \<Rightarrow> (Some e, fs)
                     | Inr img \<Rightarrow>
                         if label_empty semantic_label
                         then (Some EmptyImageError,
                               fs @ [WriteFile (label_path ds smp ''_semantic.png'') Incomplete])
                         else (None, fs @ [WriteFile (label_path ds smp ''_semantic.png'')
                                             (UbytePng img)])))
             else if export_format = ''semantic-color'' then
               (case get_semantic_bitmap (segmentation_bitmap smp) (Some anns) id_increment of
                  Inl e \<Rightarrow> (Some e, fs)
                | Inr None \<Rightarrow> (Some TypeError, fs)
                | Inr (Some semantic_label) \<Rightarrow>
                    (case uint8_of_label X semantic_label of
                       Inl e \<Rightarrow> (Some e, fs)
                     | Inr img \<Rightarrow>
                         (case colorize img (Some (image_colormap ds)) of
                            Inl e \<Rightarrow> (Some e, fs)
                          | Inr colored \<Rightarrow>
                              (case pil_save colored of
                                 Inl e \<Rightarrow>
                                   (Some e,
                                    fs @ [WriteFile
                                            (label_path ds smp ''_semantic_colored.png'')
                                            Incomplete])
                               | Inr saved \<Rightarrow>
                                   (None,
                                    fs @ [WriteFile
                                            (label_path ds smp ''_semantic_colored.png'')
                                            (RgbPng saved)])))))
             else (None, fs)))"

definition export_image ::
  "('n, 'f, 'rle, 'img) externals \<Rightarrow> 'img fs_event list \<Rightarrow> 'n dataset \<Rightarrow> string \<Rightarrow> string \<Rightarrow> int
     \<Rightarrow> (error + export_result) \<times> 'img fs_event list" where
  "export_image X fs ds export_folder export_format id_increment =
     (case for_each (export_image_sample X ds export_format id_increment)
             (enumerate 0 (samples ds)) (fs @ [MakeDirs export_folder]) of
        (Some e, fs') \<Rightarrow> (Inl e, fs')
      | (None, fs') \<Rightarrow> (Inr (Dir (image_dir ds)), fs'))"

section \<open>\<open>export_coco_panoptic\<close>\<close>

text \<open>
  \<open>Category.parse_obj\<close> on one entry of \<open>dataset.categories\<close>: the colour is the first
  three numbers of \<open>color\<close> or the palette entry of the position, \<open>isthing\<close> is
  \<open>has_instances\<close> or 0. The model validates that the colour has three components.
\<close>

definition parse_category :: "nat \<times> category_json \<Rightarrow> error + Category" where
  "parse_category ic =
     (case ic of (i, c) \<Rightarrow>
        (case (case color_json c of
                 Some col \<Rightarrow> take 3 col
               | None \<Rightarrow> colormap_get_color (int i)) of
           [r, g, b] \<Rightarrow>
             Inr \<lparr>id_cat = id_json c, name_cat = name_json c, color = (r, g, b),
                  isthing = (case has_instances c of Some h \<Rightarrow> h | None \<Rightarrow> False)\<rparr>
         | _ \<Rightarrow> Inl ValidationError))"

fun parse_categories :: "(nat \<times> category_json) list \<Rightarrow> error + Category list" where
  "parse_categories [] = Inr []"
| "parse_categories (ic # rest) =
     (case parse_category ic of
        Inl e \<Rightarrow> Inl e
      | Inr c \<Rightarrow>
          (case parse_categories rest of
             Inl e \<Rightarrow> Inl e
           | Inr cs \<Rightarrow> Inr (c # cs)))"

text \<open>
  \<open>d[k] = v\<close> on a dictionary kept as its list of items: an existing key keeps its
  place and takes the new value, a new key is added at the end.
\<close>

fun dict_setitem :: "('k \<times> 'v) list \<Rightarrow> 'k \<Rightarrow> 'v \<Rightarrow> ('k \<times> 'v) list" where
  "dict_setitem [] k v = [(k, v)]"
| "dict_setitem ((k', v') # d) k v =
     (if k' = k then (k, v) # d else (k', v') # dict_setitem d k v)"

text \<open>\<open>{category.id: category for category in categories}\<close>.\<close>

definition categories_dict :: "Category list \<Rightarrow> (int \<times> Category) list" where
  "categories_dict cats = fold (\<lambda>c d. dict_setitem d (id_cat c) c) cats []"

text \<open>\<open>panoptic_label[instance_mask] = color\<close>, the colour cast to \<open>uint8\<close>.\<close>

definition fill_mask ::
  "raster \<Rightarrow> int \<Rightarrow> RGB \<Rightarrow> 8 word list list list \<Rightarrow> 8 word list list list" where
  "fill_mask bitmap i c panoptic_label =
     map2 (\<lambda>row lrow.
             map2 (\<lambda>v px. if uint v = i
                           then (case c of (r, g, b) \<Rightarrow> [word_of_int r, word_of_int g, word_of_int b])
                           else px)
               row lrow)
       bitmap panoptic_label"

text \<open>
  The loop over the annotations of one sample; the state is the panoptic image,
  \<open>segments_info\<close>, the generator and the position in the random source. The colour is
  allocated before the test for a missing region.
\<close>

fun panoptic_annotations ::
  "(nat \<Rightarrow> nat) \<Rightarrow> raster \<Rightarrow> (int \<Rightarrow> region option) \<Rightarrow> 'n annotation list
     \<Rightarrow> 8 word list list list \<times> segment_entry list \<times> IdGenerator \<times> nat
     \<Rightarrow> (error option \<times> 8 word list list list \<times> segment_entry list \<times> IdGenerator \<times> nat) option"
  where
  "panoptic_annotations draws bitmap regions [] st = Some (None, st)"
| "panoptic_annotations draws bitmap regions (a # rest) (panoptic_label, segs, gen, pos) =
     (case get_id_and_color draws gen pos (category_id a) of
        None \<Rightarrow> None
      | Some (Inl e, gen', pos') \<Rightarrow> Some (Some e, (panoptic_label, segs, gen', pos'))
      | Some (Inr (instance_id, c), gen', pos') \<Rightarrow>
          (case regions (id_ann a) of
             None \<Rightarrow>
               panoptic_annotations draws bitmap regions rest (panoptic_label, segs, gen', pos')
           | Some r \<Rightarrow>
               (case bbox r of (y0, x0, y1, x1) \<Rightarrow>
                  panoptic_annotations draws bitmap regions rest
                    (fill_mask bitmap (id_ann a) c panoptic_label,
                     segs @ [\<lparr>id_segment = instance_id, category_id_segment = category_id a,
                              bbox_segment = [x0, y0, x1 - x0, y1 - y0],
                              area_segment = area r\<rparr>],
                     gen', pos'))))"

text \<open>
  The body of the loop over the samples; the state is \<open>images\<close>, \<open>annotations\<close>, the
  file system, the generator and the position in the random source. A sample without
  annotations meets \<open>continue\<close>. \<open>None.size\<close> raises AttributeError. The entry is
  appended to \<open>annotations\<close> before the image is saved; saving an image without pixels
  raises.
\<close>

definition panoptic_sample ::
  "(nat \<Rightarrow> nat) \<Rightarrow> ('n, 'f, 'rle, 'img) externals \<Rightarrow> 'n dataset \<Rightarrow> nat \<times> 'n sample
     \<Rightarrow> image_entry list \<times> panoptic_entry list \<times> 'img fs_event list \<times> IdGenerator \<times> nat
     \<Rightarrow> (error option
          \<times> image_entry list \<times> panoptic_entry list \<times> 'img fs_event list \<times> IdGenerator \<times> nat)
         option" where
  "panoptic_sample draws X ds ismp st =
     (case ismp of (i, smp) \<Rightarrow>
      case st of (images, anns, fs, gen, pos) \<Rightarrow>
        (case annotations smp of
           None \<Rightarrow> Some (None, st)
         | Some instances \<Rightarrow>
             (let image_id = i + 1; images' = images @ [image_entry_of image_id smp] in
              case segmentation_bitmap smp of
                None \<Rightarrow> Some (Some AttributeError, (images', anns, fs, gen, pos))
              | Some bitmap \<Rightarrow>
                  (case panoptic_annotations draws bitmap (regions_dict (regionprops X bitmap))
                          instances (map (map (\<lambda>v. [0, 0, 0])) bitmap, [], gen, pos) of
                     None \<Rightarrow> None
                   | Some (Some e, (panoptic_label, segs, gen', pos')) \<Rightarrow>
                       Some (Some e, (images', anns, fs, gen', pos'))
                   | Some (None, (panoptic_label, segs, gen', pos')) \<Rightarrow>
                       (let label_file_name =
                              splitext_root (basename (name smp)) @ ''_label_'' @ labelset ds
                                @ ''_coco-panoptic.png'';
                            anns' = anns @ [\<lparr>segments_info = segs,
                                             file_name_panoptic = label_file_name,
                                             image_id_panoptic = image_id\<rparr>];
                            export_file = path_join (image_dir ds) label_file_name
                        in case pil_save panoptic_label of
                             Inl e \<Rightarrow>
                               Some (Some e,
                                 (images', anns', fs @ [WriteFile export_file Incomplete],
                                  gen', pos'))
                           | Inr saved \<Rightarrow>
                               Some (None,
                                 (images', anns', fs @ [WriteFile export_file (RgbPng saved)],
                                  gen', pos')))))))"

text \<open>
  \<open>export_coco_panoptic\<close>, from position \<open>pos\<close> of the random source: the folder is
  created, the categories are parsed and the generator is built from them, the samples
  are visited in index order (one image file each), and the document is written at the
  end. \<open>None\<close> when a colour allocation does not end.
\<close>

definition export_coco_panoptic ::
  "(nat \<Rightarrow> nat) \<Rightarrow> nat \<Rightarrow> ('n, 'f, 'rle, 'img) externals \<Rightarrow> 'img fs_event list \<Rightarrow> 'n dataset
     \<Rightarrow> string \<Rightarrow> ((error + export_result) \<times> 'img fs_event list) option" where
  "export_coco_panoptic draws pos X fs ds export_folder =
     (let fs1 = fs @ [MakeDirs export_folder] in
      case parse_categories (enumerate 0 (categories_json ds)) of
        Inl e \<Rightarrow> Some (Inl e, fs1)
      | Inr cats \<Rightarrow>
          (case for_each_option (panoptic_sample draws X ds) (enumerate 0 (samples ds))
                  ([], [], fs1, IdGenerator_init (categories_dict cats), pos) of
             None \<Rightarrow> None
           | Some (Some e, (images, anns, fs', gen, pos')) \<Rightarrow> Some (Inl e, fs')
           | Some (None, (images, anns, fs', gen, pos')) \<Rightarrow>
               (let json_data =
                      \<lparr>info_description_panoptic = release_dataset_name ds,
                       info_version_panoptic = release_name ds,
                       categories_panoptic = cats, images_panoptic = images,
                       annotations_panoptic = anns\<rparr>;
                    json_file = path_join export_folder
                      (''export_coco-panoptic_'' @ dataset_identifier ds @ ''_''
                         @ release_name ds @ ''.json'')
                in case json_dump_panoptic X json_data of
                     Inl e \<Rightarrow> Some (Inl e, fs' @ [WriteFile json_file Incomplete])
                   | Inr doc \<Rightarrow>
                       Some (Inr (JsonAndDir json_file (image_dir ds)),
                             fs' @ [WriteFile json_file (JsonText doc)]))))"

section \<open>\<open>export_dataset\<close> (\<open>utils.py\<close>)\<close>

text \<open>
  \<open>export_dataset\<close>: for each known format the task type is tested first, and
  ValueError is raised before the emitter is called. The result is what the call returns
  or raises, with the file system after it; \<open>None\<close> when the call does not end.
\<close>

definition export_dataset ::
  "(nat \<Rightarrow> nat) \<Rightarrow> nat \<Rightarrow> ('n::minus, 'f, 'rle, 'img) externals \<Rightarrow> 'img fs_event list
     \<Rightarrow> 'n dataset \<Rightarrow> string \<Rightarrow> string \<Rightarrow> int
     \<Rightarrow> ((error + export_result) \<times> 'img fs_event list) option" where
  "export_dataset draws pos X fs ds export_folder export_format id_increment =
     (if export_format = ''coco-panoptic'' then
        (if task_type ds \<notin> set [''segmentation-bitmap'', ''segmentation-bitmap-highres'']
         then Some (Inl ValueError, fs)
         else export_coco_panoptic draws pos X fs ds export_folder)
      else if export_format = ''coco-instance'' then
        (if task_type ds \<notin> set [''segmentation-bitmap'', ''segmentation-bitmap-highres'']
         then Some (Inl ValueError, fs)
         else Some (export_coco_instance X fs ds export_folder))
      else if export_format = ''yolo'' then
        (if task_type ds \<notin> set [''vector'', ''bboxes'']
         then Some (Inl ValueError, fs)
         else Some (export_yolo X fs ds export_folder))
      else if export_format \<in> set [''semantic-color'', ''instance-color'', ''semantic'', ''instance'']
      then
        (if task_type ds \<notin> set [''segmentation-bitmap'', ''segmentation-bitmap-highres'']
         then Some (Inl ValueError, fs)
         else Some (export_image X fs ds export_folder export_format id_increment))
      else Some (Inr NoResult, fs))"

text \<open>
  Stand-ins for the library functions, used only to instantiate the closed examples
  below; the theorems hold for every choice of these functions.
\<close>

definition stub_externals :: "(int, int, unit, unit) externals" where
  "stub_externals =
     \<lparr>regionprops = (\<lambda>bitmap. []), mask_encode = (\<lambda>mask. ()),
      json_dump_instance = (\<lambda>json_data. Inr []), json_dump_panoptic = (\<lambda>json_data. Inr []),
      img_as_ubyte = (\<lambda>semantic_label. Inr ()),
      np_uint8 = (\<lambda>a. Inr (map (map word_of_int) a)), truediv = (\<lambda>x w. x), fadd = (\<lambda>x y. x + y),
      fsub = (\<lambda>x y. x - y), fabs = abs, fhalf = (\<lambda>x. x), format6 = str_int\<rparr>"

text \<open>
  A small dataset for the closed examples: three samples, the second without
  annotations, image or bitmap.
\<close>

definition example_sample :: "string \<Rightarrow> int sample" where
  "example_sample n =
     \<lparr>name = n, file_name = n, image_sample = Some (100, 200),
      segmentation_bitmap = Some [[0, 1]],
      annotations = Some [\<lparr>id_ann = 1, category_id = 5, type_ann = ''bbox'',
                           points = [[10, 20], [50, 80]]\<rparr>]\<rparr>"

definition null_sample :: "int sample" where
  "null_sample =
     \<lparr>name = ''b.png'', file_name = ''b.png'', image_sample = None,
      segmentation_bitmap = None, annotations = None\<rparr>"

definition example_dataset :: "int dataset" where
  "example_dataset =
     \<lparr>task_type = ''bboxes'', categories_json = [],
      samples = [example_sample ''a.png'', null_sample, example_sample ''c.png''],
      labelset = ''ground-truth'', image_dir = ''img'', dataset_identifier = ''d'',
      release_name = ''v1'', release_dataset_name = ''d''\<rparr>"

section \<open>Properties of the codec\<close>

text \<open>
  C1: for every id \<open>x\<close> with \<open>0 \<le> x < 2^24\<close>, \<open>rgb2id\<close> of \<open>id2rgb x\<close> is \<open>x\<close>.
\<close>

theorem rgb2id_id2rgb:
  assumes "0 \<le> x" and "x < 2 ^ 24"
  shows "rgb2id (Triple (id2rgb x)) = Inr (PyInt x)"
proof -
  have "x div 256 div 256 < 256" using assms by simp
  moreover have "0 \<le> x div 256 div 256" using assms by simp
  ultimately have b: "x div 256 div 256 mod 256 = x div 256 div 256" by simp
  have "x mod 256 + 256 * (x div 256 mod 256) + 256 * 256 * (x div 256 div 256) = x"
    by presburger
  then show ?thesis by (simp add: id2rgb_def Let_def b)
qed

theorem rgb2id_id2rgb_witness:
  "(0::int) \<le> 70000 \<and> (70000::int) < 2 ^ 24 \<and> id2rgb 70000 = (112, 17, 1)
   \<and> rgb2id (Triple (id2rgb 70000)) = Inr (PyInt 70000)"
  using rgb2id_id2rgb [of 70000] by (simp add: id2rgb_def)

section \<open>Properties of the lossless packing\<close>

lemma upper_bits_unset:
  fixes v :: "32 word"
  assumes "v < 2 ^ 24" "24 \<le> n"
  shows "\<not> bit v n"
proof -
  have "take_bit 24 v = v" using assms(1) by (simp add: less_mask_eq take_bit_eq_mask)
  then have "bit v n = bit (take_bit 24 v) n" by simp
  also have "\<dots> = False" using assms(2) by (simp add: bit_take_bit_iff)
  finally show ?thesis by simp
qed

lemma view_roundtrip:
  fixes v :: "32 word"
  assumes "v < 2 ^ 24"
  shows "view_uint32 ((view_uint8 v)[3 := 0]) = v"
proof (rule bit_word_eqI)
  fix n assume n: "n < LENGTH(32)"
  consider "n < 8" | "8 \<le> n" "n < 16" | "16 \<le> n" "n < 24" | "24 \<le> n" by linarith
  then show "bit (view_uint32 ((view_uint8 v)[3 := 0])) n = bit v n"
  proof cases
    case 1
    then show ?thesis by (simp add: view_uint32_def view_uint8_def bit_simps)
  next
    case 2
    then show ?thesis by (auto simp: view_uint32_def view_uint8_def bit_simps)
  next
    case 3
    then show ?thesis by (auto simp: view_uint32_def view_uint8_def bit_simps)
  next
    case 4
    with upper_bits_unset [OF assms] n show ?thesis
      by (auto simp: view_uint32_def view_uint8_def bit_simps)
  qed
qed

lemma uint_low_byte:
  fixes v :: "32 word"
  shows "uint (ucast v :: 8 word) = uint v mod 256"
  by (simp add: unsigned_ucast_eq take_bit_eq_mod)

lemma uint_drop_bit:
  fixes v :: "32 word"
  shows "uint (drop_bit 8 v) = uint v div 256" "uint (drop_bit 16 v) = uint v div 65536"
  by (simp_all add: drop_bit_eq_div uint_div)

lemma view_uint8_id2rgb:
  fixes v :: "32 word"
  shows "(uint (view_uint8 v ! 0), uint (view_uint8 v ! 1), uint (view_uint8 v ! 2)) = id2rgb (uint v)"
proof -
  have "uint v div 256 div 256 = uint v div 65536"
    by (simp add: div_mult2_eq [symmetric])
  then show ?thesis
    by (simp add: view_uint8_def id2rgb_def Let_def uint_low_byte uint_drop_bit)
qed

lemma sint_word_of_int_small:
  fixes x y z :: int
  assumes "0 \<le> x" "x < 256" "0 \<le> y" "y < 256" "0 \<le> z" "z < 256"
  shows "sint (word_of_int (x + 256 * y + 65536 * z) :: 32 word) = x + 256 * y + 65536 * z"
  unfolding sint_sbintrunc' using assms
  by (intro signed_take_bit_int_eq_self) simp_all

lemma sint_reduce:
  fixes a b c :: "8 word"
  shows "sint ((ucast a :: 32 word) + 256 * ucast b + 256 * 256 * ucast c) = uint a + 256 * uint b + 65536 * uint c"
proof -
  have bounds: "uint a < 256" "uint b < 256" "uint c < 256"
    using uint_lt2p [of a] uint_lt2p [of b] uint_lt2p [of c] by simp_all
  have "(ucast a :: 32 word) + 256 * ucast b + 256 * 256 * ucast c
          = word_of_int (uint a + 256 * uint b + 65536 * uint c)" by simp
  then show ?thesis
    using sint_word_of_int_small [of "uint a" "uint b" "uint c"] bounds by simp
qed

lemma view_uint8_alpha:
  fixes v :: "32 word"
  shows "(view_uint8 v)[3 := 255] =
    (case id2rgb (uint v) of (r, g, b) \<Rightarrow> [word_of_int r, word_of_int g, word_of_int b, 255])"
proof -
  have "(view_uint8 v)[3 := 255] = [view_uint8 v ! 0, view_uint8 v ! 1, view_uint8 v ! 2, 255]"
    by (simp add: view_uint8_def)
  then show ?thesis
    by (simp add: view_uint8_id2rgb [symmetric])
qed

lemma extract_pixel:
  fixes v :: "32 word"
  assumes "v < 2 ^ 24"
  shows "view_uint32 (((view_uint8 v)[3 := 255])[3 := 0]) = v"
  using view_roundtrip [OF assms] by simp

text \<open>
  C4, as the code has it: for a \<open>uint32\<close> label raster that has at least one pixel and
  whose values are all below \<open>2^24\<close>, \<open>bitmap2file\<close> succeeds; each pixel of the image
  is its id's \<open>id2rgb\<close> triple in the R, G, B bytes followed by alpha 255; and
  \<open>extract_bitmap\<close> on that image returns the original raster.
\<close>

theorem bitmap2file_roundtrip:
  assumes small: "\<forall>row\<in>set bitmap. \<forall>v\<in>set row. v < 2 ^ 24"
    and pixels: "concat bitmap \<noteq> []"
  shows "\<exists>file. bitmap2file (UInt32 bitmap) True = Inr file
           \<and> file = map (map (\<lambda>v. case id2rgb (uint v) of
                                      (r, g, b) \<Rightarrow> [word_of_int r, word_of_int g, word_of_int b, 255]))
                       bitmap
           \<and> extract_bitmap file = Inr bitmap"
proof -
  let ?file = "map (map (\<lambda>v. (view_uint8 v)[3 := 255])) bitmap"
  have "concat ?file = map (\<lambda>v. (view_uint8 v)[3 := 255]) (concat bitmap)"
    by (simp add: map_concat)
  with pixels have "concat ?file \<noteq> []" by simp
  then have enc: "bitmap2file (UInt32 bitmap) True = Inr ?file"
    by (simp add: bitmap2file_def pil_save_def)
  have four: "list_all (list_all (\<lambda>px. length px = 4)) ?file"
    by (simp add: list_all_iff view_uint8_def)
  then have atleast: "list_all (list_all (\<lambda>px. 4 \<le> length px)) ?file"
    by (simp add: list_all_iff)
  have "map (map (\<lambda>px. view_uint32 (px[3 := 0]))) ?file = bitmap"
  proof -
    have "map (map (\<lambda>px. view_uint32 (px[3 := 0]))) ?file
            = map (map (\<lambda>v. view_uint32 (((view_uint8 v)[3 := 255])[3 := 0]))) bitmap"
      by (simp add: comp_def)
    also have "\<dots> = map (map (\<lambda>v. v)) bitmap"
      using small by (intro map_cong refl extract_pixel) blast
    finally show ?thesis by simp
  qed
  with four atleast have dec: "extract_bitmap ?file = Inr bitmap"
    by (simp add: extract_bitmap_def)
  have "?file = map (map (\<lambda>v. case id2rgb (uint v) of
                    (r, g, b) \<Rightarrow> [word_of_int r, word_of_int g, word_of_int b, 255])) bitmap"
    by (simp only: view_uint8_alpha)
  with enc dec show ?thesis by blast
qed

theorem bitmap2file_roundtrip_witness:
  "list_all (list_all (\<lambda>v. v < 2 ^ 24)) [[0, 70000], [16777215, 1 :: 32 word]]
   \<and> concat [[0, 70000], [16777215, 1 :: 32 word]] \<noteq> []
   \<and> bitmap2file (UInt32 [[0, 70000], [16777215, 1]]) True
       = Inr [[[0, 0, 0, 255], [112, 17, 1, 255]], [[255, 255, 255, 255], [1, 0, 0, 255]]]
   \<and> extract_bitmap [[[0, 0, 0, 255], [112, 17, 1, 255]], [[255, 255, 255, 255], [1, 0, 0, 255]]]
       = Inr [[0, 70000], [16777215, 1]]"
  using bitmap2file_roundtrip [of "[[0, 70000], [16777215, 1]]"]
  by (simp add: id2rgb_def)

text \<open>
  C4 as stated fails on a raster without pixels: all of its values are below \<open>2^24\<close>,
  and \<open>bitmap2file\<close> raises when it saves the image, for no row and for an empty row.
\<close>

theorem bitmap2file_empty_counterexample:
  "bitmap2file (UInt32 []) True = Inl EmptyImageError
   \<and> bitmap2file (UInt32 [[]]) True = Inl EmptyImageError"
  by (simp add: bitmap2file_def pil_save_def)

section \<open>Shapes accepted by \<open>rgb2id\<close>\<close>

lemma upcast_pixel:
  fixes px :: "8 word list"
  assumes "3 \<le> length px"
  shows "sint ((map ucast px :: 32 word list) ! 0 + 256 * map ucast px ! 1
               + 256 * 256 * map ucast px ! 2)
         = uint (px ! 0) + 256 * uint (px ! 1) + 65536 * uint (px ! 2)"
proof -
  have "(map ucast px :: 32 word list) ! 0 = ucast (px ! 0)"
       "(map ucast px :: 32 word list) ! 1 = ucast (px ! 1)"
       "(map ucast px :: 32 word list) ! 2 = ucast (px ! 2)"
    using assms by (simp_all only: nth_map [where xs = px and f = ucast])
  then show ?thesis by (simp only: sint_reduce)
qed

text \<open>
  C5, as the code has it: \<open>rgb2id\<close> turns a single triple into
  \<open>r + 256 g + 65536 b\<close>; it reduces a three-dimensional \<open>uint8\<close> array (rows of
  pixels with at least three channels) along the colour axis after the upcast to
  \<open>int32\<close>, where every result is the exact value of the formula, so nothing wraps; an
  \<open>N \<times> 3\<close> array is not reduced: the call raises IndexError for \<open>N < 3\<close> and
  TypeError otherwise.
\<close>

theorem rgb2id_shapes:
  assumes chans: "\<forall>row\<in>set pixels. \<forall>px\<in>set row. 3 \<le> length px"
  shows "rgb2id (Triple (r, g, b)) = Inr (PyInt (r + 256 * g + 65536 * b))
     \<and> (\<exists>ids. rgb2id (Array3_uint8 pixels) = Inr (IdMap ids)
            \<and> map (map sint) ids =
                map (map (\<lambda>px. uint (px ! 0) + 256 * uint (px ! 1) + 65536 * uint (px ! 2))) pixels)
     \<and> rgb2id (Array2 rows) = Inl (if length rows < 3 then IndexError else TypeError)"
proof -
  let ?up = "map (map (map ucast)) pixels :: 32 word list list list"
  let ?ids = "map (map (\<lambda>px. px ! 0 + 256 * px ! 1 + 256 * 256 * px ! 2)) ?up"
  have "list_all (list_all (\<lambda>px. 3 \<le> length px)) ?up"
    using chans by (simp add: list_all_iff)
  then have run: "rgb2id (Array3_uint8 pixels) = Inr (IdMap ?ids)"
    by (simp add: reduce_color_axis_def)
  have "map (map sint) ?ids =
      map (map (\<lambda>px. sint ((map ucast px :: 32 word list) ! 0 + 256 * map ucast px ! 1
               + 256 * 256 * map ucast px ! 2))) pixels"
    by (simp add: comp_def)
  also have "\<dots> =
      map (map (\<lambda>px. uint (px ! 0) + 256 * uint (px ! 1) + 65536 * uint (px ! 2))) pixels"
  proof (intro map_cong refl)
    fix row px assume "row \<in> set pixels" "px \<in> set row"
    with chans have "3 \<le> length px" by blast
    then show "sint ((map ucast px :: 32 word list) ! 0 + 256 * map ucast px ! 1
               + 256 * 256 * map ucast px ! 2)
         = uint (px ! 0) + 256 * uint (px ! 1) + 65536 * uint (px ! 2)"
      by (rule upcast_pixel)
  qed
  finally have "map (map sint) ?ids =
      map (map (\<lambda>px. uint (px ! 0) + 256 * uint (px ! 1) + 65536 * uint (px ! 2))) pixels" .
  with run show ?thesis by simp
qed

theorem rgb2id_shapes_witness:
  "list_all (list_all (\<lambda>px. 3 \<le> length px)) [[[1, 2, 3], [255, 255, 255 :: 8 word]]]
   \<and> rgb2id (Triple (1, 2, 3)) = Inr (PyInt 197121)
   \<and> rgb2id (Array3_uint8 [[[1, 2, 3], [255, 255, 255]]]) = Inr (IdMap [[197121, 16777215]])
   \<and> rgb2id (Array2 [(1, 2, 3)]) = Inl IndexError"
  using rgb2id_shapes [of "[[[1, 2, 3], [255, 255, 255]]]" 1 2 3 "[(1, 2, 3)]"]
  by (simp add: reduce_color_axis_def)

text \<open>
  C5 as stated fails on two-dimensional input: for the \<open>3 \<times> 3\<close> array of the triples
  \<open>(1,2,3)\<close>, \<open>(4,5,6)\<close>, \<open>(7,8,9)\<close> the call raises TypeError instead of
  returning three ids, and for two triples it raises IndexError.
\<close>

theorem rgb2id_array2_counterexample:
  "rgb2id (Array2 [(1, 2, 3), (4, 5, 6), (7, 8, 9)]) = Inl TypeError
   \<and> rgb2id (Array2 [(1, 2, 3), (4, 5, 6)]) = Inl IndexError"
  by simp

section \<open>Properties of the color allocator\<close>

lemma retry_color_fresh:
  assumes "retry_color draws base taken pos = Some y"
  shows "fst y \<notin> taken"
proof (rule retry_color.raw_induct
    [where P = "\<lambda>draws base taken pos y. fst y \<notin> taken", OF _ assms])
  fix f :: "(nat \<Rightarrow> nat) \<Rightarrow> RGB \<Rightarrow> RGB set \<Rightarrow> nat \<Rightarrow> (RGB \<times> nat) option"
    and d b t p y
  assume IH: "\<And>d b t p y. f d b t p = Some y \<Longrightarrow> fst y \<notin> t"
    and step: "(let c = random_color b 30 d p
      in if c \<notin> t then Some (c, p + 3) else f d b t (p + 3)) = Some y"
  show "fst y \<notin> t"
  proof (cases "random_color b 30 d p \<notin> t")
    case True
    with step show ?thesis by (auto simp: Let_def)
  next
    case False
    with step have "f d b t (p + 3) = Some y" by (simp add: Let_def)
    then show ?thesis by (rule IH)
  qed
qed

text \<open>
  The loop returns as soon as the random source offers a candidate that is not taken.
\<close>

lemma retry_color_first:
  "random_color base 30 draws pos \<notin> taken
   \<Longrightarrow> retry_color draws base taken pos = Some (random_color base 30 draws pos, pos + 3)"
  by (subst retry_color.simps) (simp add: Let_def)

lemma retry_color_next:
  "random_color base 30 draws pos \<in> taken
   \<Longrightarrow> retry_color draws base taken pos = retry_color draws base taken (pos + 3)"
  by (subst retry_color.simps) (simp add: Let_def)

lemma retry_color_returns:
  "random_color base 30 draws (pos + 3 * k) \<notin> taken
   \<Longrightarrow> \<exists>y. retry_color draws base taken pos = Some y"
proof (induction k arbitrary: pos)
  case 0
  then have "random_color base 30 draws pos \<notin> taken" by simp
  from retry_color_first [OF this] show ?case by blast
next
  case (Suc k)
  show ?case
  proof (cases "random_color base 30 draws pos \<in> taken")
    case False
    then show ?thesis using retry_color_first [of base draws pos taken] by blast
  next
    case True
    from Suc.prems have "random_color base 30 draws (pos + 3 + 3 * k) \<notin> taken"
      by (simp add: add.assoc)
    from Suc.IH [OF this] obtain y where "retry_color draws base taken (pos + 3) = Some y" ..
    with True show ?thesis by (simp add: retry_color_next)
  qed
qed

lemma get_color_categories:
  "get_color draws self pos cat_id = Some (r, self', pos') \<Longrightarrow> categories self' = categories self"
  by (auto simp: get_color_def Let_def split: option.splits if_splits prod.splits)

lemma get_color_mono:
  "get_color draws self pos cat_id = Some (r, self', pos') \<Longrightarrow> taken_colors self \<subseteq> taken_colors self'"
  by (auto simp: get_color_def Let_def split: option.splits if_splits prod.splits)

lemma get_color_thing:
  assumes "map_of (categories self) cat_id = Some category" "isthing category"
    and "get_color draws self pos cat_id = Some (Inr c, self', pos')"
  shows "c \<notin> taken_colors self \<and> taken_colors self' = insert c (taken_colors self)"
  using assms
  by (auto simp: get_color_def Let_def split: option.splits if_splits prod.splits
      dest: retry_color_fresh)

lemma get_color_stuff:
  assumes "map_of (categories self) cat_id = Some category" "\<not> isthing category"
  shows "get_color draws self pos cat_id = Some (Inr (color category), self, pos)"
  using assms by (simp add: get_color_def)

lemma run_get_color_things:
  assumes "\<forall>cat_id\<in>set cat_ids. \<exists>category. map_of (categories self) cat_id = Some category \<and> isthing category"
    and "run_get_color draws self pos cat_ids = Some (Inr colors, self', pos')"
  shows "distinct colors \<and> set colors \<inter> taken_colors self = {}
         \<and> taken_colors self' = taken_colors self \<union> set colors"
  using assms
proof (induction cat_ids arbitrary: self pos colors)
  case Nil
  then show ?case by simp
next
  case (Cons cat_id cat_ids)
  from Cons.prems(1) obtain category where
    cat: "map_of (categories self) cat_id = Some category" "isthing category" by auto
  from Cons.prems(2) obtain c self1 pos1 cs where
    first: "get_color draws self pos cat_id = Some (Inr c, self1, pos1)"
    and rest: "run_get_color draws self1 pos1 cat_ids = Some (Inr cs, self', pos')"
    and colors: "colors = c # cs"
    by (auto split: option.splits sum.splits prod.splits)
  from get_color_thing [OF cat first] have
    c: "c \<notin> taken_colors self" "taken_colors self1 = insert c (taken_colors self)" by auto
  have "categories self1 = categories self" using first by (rule get_color_categories)
  with Cons.prems(1) have
    "\<forall>cat_id\<in>set cat_ids. \<exists>category. map_of (categories self1) cat_id = Some category \<and> isthing category"
    by simp
  from Cons.IH [OF this rest] have
    ih: "distinct cs" "set cs \<inter> taken_colors self1 = {}"
      "taken_colors self' = taken_colors self1 \<union> set cs" by auto
  from ih c colors show ?case by auto
qed

lemma taken_colors_fold:
  "fold (\<lambda>category taken. if \<not> isthing category then insert (color category) taken else taken) cs s
   = s \<union> color ` {category \<in> set cs. \<not> isthing category}"
  by (induction cs arbitrary: s) auto

lemma taken_colors_init:
  "taken_colors (IdGenerator_init cats)
     = insert (0, 0, 0) (color ` {category \<in> set (map snd cats). \<not> isthing category})"
  by (simp add: IdGenerator_init_def taken_colors_fold)

text \<open>
  C2: in a run of \<open>get_color\<close> calls on thing categories, starting from a freshly
  constructed generator, the colours returned are pairwise distinct, none is black, none
  is the colour of a category with \<open>isthing\<close> false, and every colour taken at
  construction is still taken at the end; moreover any single call, from any state of the
  generator, keeps every colour that was taken before it. The retry loop has no bound,
  so the statement is about the runs that return.
\<close>

theorem get_color_things_distinct:
  assumes things: "\<forall>cat_id\<in>set cat_ids. \<exists>category. map_of cats cat_id = Some category \<and> isthing category"
    and run: "run_get_color draws (IdGenerator_init cats) pos cat_ids = Some (Inr colors, self', pos')"
  shows "distinct colors
     \<and> (0, 0, 0) \<notin> set colors
     \<and> (\<forall>category\<in>set (map snd cats). \<not> isthing category \<longrightarrow> color category \<notin> set colors)
     \<and> taken_colors (IdGenerator_init cats) \<subseteq> taken_colors self'
     \<and> (\<forall>g p cat_id r g' p'. get_color draws g p cat_id = Some (r, g', p')
            \<longrightarrow> taken_colors g \<subseteq> taken_colors g')"
proof -
  have "categories (IdGenerator_init cats) = cats" by (simp add: IdGenerator_init_def)
  with things have
    "\<forall>cat_id\<in>set cat_ids. \<exists>category.
        map_of (categories (IdGenerator_init cats)) cat_id = Some category \<and> isthing category"
    by simp
  from run_get_color_things [OF this run] have
    d: "distinct colors" and disj: "set colors \<inter> taken_colors (IdGenerator_init cats) = {}"
    and grow: "taken_colors self' = taken_colors (IdGenerator_init cats) \<union> set colors"
    by auto
  from disj have black: "(0, 0, 0) \<notin> set colors"
    by (auto simp: taken_colors_init)
  from disj have stuff:
    "\<forall>category\<in>set (map snd cats). \<not> isthing category \<longrightarrow> color category \<notin> set colors"
    by (auto simp: taken_colors_init)
  from grow have sub: "taken_colors (IdGenerator_init cats) \<subseteq> taken_colors self'" by auto
  have mono: "\<forall>g p cat_id r g' p'. get_color draws g p cat_id = Some (r, g', p')
            \<longrightarrow> taken_colors g \<subseteq> taken_colors g'"
    using get_color_mono by blast
  from d black stuff sub mono show ?thesis by blast
qed

theorem get_color_things_distinct_witness:
  "(\<exists>self'. run_get_color (\<lambda>k. if k < 3 then 30 else 31 + k)
        (IdGenerator_init
          [(1, \<lparr>id_cat = 1, name_cat = ''car'', color = (100, 100, 100), isthing = True\<rparr>),
           (2, \<lparr>id_cat = 2, name_cat = ''road'', color = (200, 0, 0), isthing = False\<rparr>),
           (3, \<lparr>id_cat = 3, name_cat = ''bus'', color = (100, 100, 100), isthing = True\<rparr>)])
        0 [1, 3, 1]
      = Some (Inr [(100, 100, 100), (104, 105, 106), (107, 108, 109)], self', 9))
   \<and> distinct [(100, 100, 100), (104, 105, 106), (107, 108, 109) :: RGB]
   \<and> (0, 0, 0) \<notin> set [(100, 100, 100), (104, 105, 106), (107, 108, 109) :: RGB]
   \<and> (200, 0, 0) \<notin> set [(100, 100, 100), (104, 105, 106), (107, 108, 109) :: RGB]"
proof -
  let ?draws = "\<lambda>k::nat. if k < 3 then 30 else 31 + k"
  let ?cats = "[(1, \<lparr>id_cat = 1, name_cat = ''car'', color = (100, 100, 100), isthing = True\<rparr>),
           (2, \<lparr>id_cat = 2, name_cat = ''road'', color = (200, 0, 0), isthing = False\<rparr>),
           (3, \<lparr>id_cat = 3, name_cat = ''bus'', color = (100, 100, 100), isthing = True\<rparr>)]"
  let ?colors = "[(100, 100, 100), (104, 105, 106), (107, 108, 109) :: RGB]"
  have run: "\<exists>self'. run_get_color ?draws (IdGenerator_init ?cats) 0 [1, 3, 1]
      = Some (Inr ?colors, self', 9)"
    by (simp add: IdGenerator_init_def get_color_def retry_color.simps random_color_def
        randint_def Let_def)
  then obtain self' where
    r: "run_get_color ?draws (IdGenerator_init ?cats) 0 [1, 3, 1] = Some (Inr ?colors, self', 9)"
    by blast
  have things: "\<forall>cat_id\<in>set [1, 3, 1 :: int]. \<exists>category. map_of ?cats cat_id = Some category \<and> isthing category"
    by simp
  from get_color_things_distinct [OF things r] run show ?thesis by simp
qed

lemma run_get_color_replicate:
  assumes "map_of (categories self) cat_id = Some category" "\<not> isthing category"
  shows "run_get_color draws self pos (replicate n cat_id)
           = Some (Inr (replicate n (color category)), self, pos)"
  by (induction n) (simp_all add: get_color_stuff [OF assms])

lemma run_get_color_stuff_nth:
  assumes "map_of (categories self) cat_id = Some category" "\<not> isthing category"
    and "run_get_color draws self pos cat_ids = Some (Inr colors, self', pos')"
    and "k < length cat_ids" "cat_ids ! k = cat_id"
  shows "colors ! k = color category"
  using assms
proof (induction cat_ids arbitrary: self pos colors k)
  case Nil
  then show ?case by simp
next
  case (Cons x xs)
  from Cons.prems(3) obtain c self1 pos1 cs where
    first: "get_color draws self pos x = Some (Inr c, self1, pos1)"
    and rest: "run_get_color draws self1 pos1 xs = Some (Inr cs, self', pos')"
    and colors: "colors = c # cs"
    by (auto split: option.splits sum.splits prod.splits)
  show ?case
  proof (cases k)
    case 0
    with Cons.prems(5) have "x = cat_id" by simp
    with first get_color_stuff [OF Cons.prems(1,2), of draws pos] colors 0
    show ?thesis by simp
  next
    case (Suc j)
    have "categories self1 = categories self" using first by (rule get_color_categories)
    with Cons.prems(1) have look: "map_of (categories self1) cat_id = Some category" by simp
    from Suc Cons.prems(4,5) have "j < length xs" "xs ! j = cat_id" by simp_all
    from Cons.IH [OF look Cons.prems(2) rest this] colors Suc show ?thesis by simp
  qed
qed

text \<open>
  C9: for a category with \<open>isthing\<close> false, \<open>get_color\<close> returns the category's
  colour from every state of the generator, without changing the generator or consuming
  randomness; so do \<open>n\<close> calls in a row, for every \<open>n\<close>; and in any run that
  returns, whatever is allocated in between, each call for that category returned its
  colour.
\<close>

theorem get_color_stuff_fixed:
  assumes "map_of (categories self) cat_id = Some category" and "\<not> isthing category"
  shows "get_color draws self pos cat_id = Some (Inr (color category), self, pos)
     \<and> run_get_color draws self pos (replicate n cat_id)
           = Some (Inr (replicate n (color category)), self, pos)
     \<and> (\<forall>cat_ids colors self' pos' k.
           run_get_color draws self pos cat_ids = Some (Inr colors, self', pos')
           \<and> k < length cat_ids \<and> cat_ids ! k = cat_id
           \<longrightarrow> colors ! k = color category)"
  using get_color_stuff [OF assms] run_get_color_replicate [OF assms]
    run_get_color_stuff_nth [OF assms]
  by blast

theorem get_color_stuff_fixed_witness:
  "get_color (\<lambda>k. if k < 3 then 30 else 31 + k)
        (IdGenerator_init
          [(1, \<lparr>id_cat = 1, name_cat = ''car'', color = (100, 100, 100), isthing = True\<rparr>),
           (2, \<lparr>id_cat = 2, name_cat = ''road'', color = (200, 0, 0), isthing = False\<rparr>),
           (3, \<lparr>id_cat = 3, name_cat = ''bus'', color = (100, 100, 100), isthing = True\<rparr>)])
        0 2
     = Some (Inr (200, 0, 0),
          IdGenerator_init
          [(1, \<lparr>id_cat = 1, name_cat = ''car'', color = (100, 100, 100), isthing = True\<rparr>),
           (2, \<lparr>id_cat = 2, name_cat = ''road'', color = (200, 0, 0), isthing = False\<rparr>),
           (3, \<lparr>id_cat = 3, name_cat = ''bus'', color = (100, 100, 100), isthing = True\<rparr>)],
          0)
   \<and> (\<exists>self'. run_get_color (\<lambda>k. if k < 3 then 30 else 31 + k)
        (IdGenerator_init
          [(1, \<lparr>id_cat = 1, name_cat = ''car'', color = (100, 100, 100), isthing = True\<rparr>),
           (2, \<lparr>id_cat = 2, name_cat = ''road'', color = (200, 0, 0), isthing = False\<rparr>),
           (3, \<lparr>id_cat = 3, name_cat = ''bus'', color = (100, 100, 100), isthing = True\<rparr>)])
        0 [1, 2, 3, 2]
      = Some (Inr [(100, 100, 100), (200, 0, 0), (104, 105, 106), (200, 0, 0)], self', 6))"
proof -
  let ?draws = "\<lambda>k::nat. if k < 3 then 30 else 31 + k"
  let ?road = "\<lparr>id_cat = 2, name_cat = ''road'', color = (200, 0, 0), isthing = False\<rparr>"
  let ?cats = "[(1, \<lparr>id_cat = 1, name_cat = ''car'', color = (100, 100, 100), isthing = True\<rparr>),
           (2, ?road),
           (3, \<lparr>id_cat = 3, name_cat = ''bus'', color = (100, 100, 100), isthing = True\<rparr>)]"
  have look: "map_of (categories (IdGenerator_init ?cats)) 2 = Some ?road"
    by (simp add: IdGenerator_init_def)
  have stuff: "\<not> isthing ?road" by simp
  have run: "\<exists>self'. run_get_color ?draws (IdGenerator_init ?cats) 0 [1, 2, 3, 2]
      = Some (Inr [(100, 100, 100), (200, 0, 0), (104, 105, 106), (200, 0, 0)], self', 6)"
    by (simp add: IdGenerator_init_def get_color_def retry_color.simps random_color_def
        randint_def Let_def)
  from get_color_stuff_fixed [OF look stuff, of ?draws 0 0] run show ?thesis by simp
qed

section \<open>Properties of the semantic raster\<close>

text \<open>
  C10: \<open>get_semantic_bitmap\<close> returns \<open>None\<close>, and raises nothing, when the instance
  bitmap is \<open>None\<close> or the annotations are \<open>None\<close>, whatever the other arguments are.
\<close>

theorem get_semantic_bitmap_None:
  "get_semantic_bitmap None anns id_increment = Inr None
   \<and> get_semantic_bitmap instance_bitmap None id_increment = Inr None"
  by (simp add: get_semantic_bitmap_def split: option.splits)













section \<open>Properties of the emitters\<close>

lemma for_each_skip:
  assumes "\<And>x s. \<not> P x \<Longrightarrow> body x s = (None, s)"
  shows "for_each body xs s = for_each body (filter P xs) s"
proof (induction xs arbitrary: s)
  case Nil
  show ?case by simp
next
  case (Cons x xs)
  show ?case
  proof (cases "P x")
    case True
    then show ?thesis by (simp add: Cons.IH split: prod.splits option.splits)
  next
    case False
    then show ?thesis by (simp add: assms Cons.IH)
  qed
qed

lemma for_each_option_skip:
  assumes "\<And>x s. \<not> P x \<Longrightarrow> body x s = Some (None, s)"
  shows "for_each_option body xs s = for_each_option body (filter P xs) s"
proof (induction xs arbitrary: s)
  case Nil
  show ?case by simp
next
  case (Cons x xs)
  show ?case
  proof (cases "P x")
    case True
    then show ?thesis by (simp add: Cons.IH split: prod.splits option.splits)
  next
    case False
    then show ?thesis by (simp add: assms Cons.IH)
  qed
qed

lemma coco_instance_sample_None:
  "annotations smp = None \<Longrightarrow> coco_instance_sample X task (i, smp) st = (None, st)"
  by (simp add: coco_instance_sample_def split: prod.splits)

lemma panoptic_sample_None:
  "annotations smp = None \<Longrightarrow> panoptic_sample draws X ds (i, smp) st = Some (None, st)"
  by (simp add: panoptic_sample_def split: prod.splits)

lemma export_image_sample_None:
  "annotations smp = None \<Longrightarrow> export_image_sample X ds export_format id_increment (i, smp) fs = (None, fs)"
  by (simp add: export_image_sample_def)

lemma yolo_sample_None:
  "annotations smp = None \<Longrightarrow> yolo_sample X ds (i, smp) fs = (None, fs)"
  by (simp add: yolo_sample_def)

text \<open>
  C7: in each of the four emitters the loop body, on a sample whose annotations are
  \<open>None\<close>, raises nothing and leaves the state of the loop as it is: no image entry,
  no annotation entry, no file. Hence each loop over the samples of a dataset gives what
  it gives on the samples that have annotations, each under its own index: the other
  samples are still processed.
\<close>

theorem null_annotations_skipped:
  assumes "annotations smp = None"
  shows "coco_instance_sample X task (i, smp) st = (None, st)
     \<and> panoptic_sample draws X ds (i, smp) pst = Some (None, pst)
     \<and> export_image_sample X ds export_format id_increment (i, smp) fs = (None, fs)
     \<and> yolo_sample X ds (i, smp) fs = (None, fs)
     \<and> for_each (coco_instance_sample X task) (enumerate 0 (samples ds)) st
         = for_each (coco_instance_sample X task)
             (filter (\<lambda>(k, s). annotations s \<noteq> None) (enumerate 0 (samples ds))) st
     \<and> for_each_option (panoptic_sample draws X ds) (enumerate 0 (samples ds)) pst
         = for_each_option (panoptic_sample draws X ds)
             (filter (\<lambda>(k, s). annotations s \<noteq> None) (enumerate 0 (samples ds))) pst
     \<and> for_each (export_image_sample X ds export_format id_increment) (enumerate 0 (samples ds)) fs
         = for_each (export_image_sample X ds export_format id_increment)
             (filter (\<lambda>(k, s). annotations s \<noteq> None) (enumerate 0 (samples ds))) fs
     \<and> for_each (yolo_sample X ds) (enumerate 0 (samples ds)) fs
         = for_each (yolo_sample X ds)
             (filter (\<lambda>(k, s). annotations s \<noteq> None) (enumerate 0 (samples ds))) fs"
proof -
  have a: "for_each (coco_instance_sample X task) (enumerate 0 (samples ds)) st
         = for_each (coco_instance_sample X task)
             (filter (\<lambda>(k, s). annotations s \<noteq> None) (enumerate 0 (samples ds))) st"
    by (rule for_each_skip) (auto simp: coco_instance_sample_None)
  have b: "for_each_option (panoptic_sample draws X ds) (enumerate 0 (samples ds)) pst
         = for_each_option (panoptic_sample draws X ds)
             (filter (\<lambda>(k, s). annotations s \<noteq> None) (enumerate 0 (samples ds))) pst"
    by (rule for_each_option_skip) (auto simp: panoptic_sample_None)
  have c: "for_each (export_image_sample X ds export_format id_increment) (enumerate 0 (samples ds)) fs
         = for_each (export_image_sample X ds export_format id_increment)
             (filter (\<lambda>(k, s). annotations s \<noteq> None) (enumerate 0 (samples ds))) fs"
    by (rule for_each_skip) (auto simp: export_image_sample_None)
  have d: "for_each (yolo_sample X ds) (enumerate 0 (samples ds)) fs
         = for_each (yolo_sample X ds)
             (filter (\<lambda>(k, s). annotations s \<noteq> None) (enumerate 0 (samples ds))) fs"
    by (rule for_each_skip) (auto simp: yolo_sample_None)
  from assms a b c d show ?thesis
    by (simp only: coco_instance_sample_None panoptic_sample_None export_image_sample_None
        yolo_sample_None simp_thms)
qed


theorem null_annotations_skipped_witness:
  "annotations null_sample = None
   \<and> coco_instance_sample stub_externals ''bboxes'' (1, null_sample) ([], [], 1) = (None, ([], [], 1))
   \<and> panoptic_sample (\<lambda>k. k) stub_externals example_dataset (1, null_sample)
        ([], [], [], IdGenerator_init [], 0) = Some (None, ([], [], [], IdGenerator_init [], 0))
   \<and> export_image_sample stub_externals example_dataset ''semantic'' 1 (1, null_sample) []
        = (None, [])
   \<and> yolo_sample stub_externals example_dataset (1, null_sample) [] = (None, [])
   \<and> for_each (coco_instance_sample stub_externals ''bboxes'')
         (enumerate 0 (samples example_dataset)) ([], [], 1)
       = (None,
          ([\<lparr>id_image = 1, file_name_image = ''a.png'', height_image = Some 200,
              width_image = Some 100\<rparr>,
            \<lparr>id_image = 3, file_name_image = ''c.png'', height_image = Some 200,
              width_image = Some 100\<rparr>],
           [BBoxEntry 1 1 5 [10, 20, 40, 60], BBoxEntry 2 3 5 [10, 20, 40, 60]],
           3))"
proof -
  have n: "annotations null_sample = None" by (simp add: null_sample_def)
  have run: "for_each (coco_instance_sample stub_externals ''bboxes'')
         (filter (\<lambda>(k, s). annotations s \<noteq> None) (enumerate 0 (samples example_dataset)))
         ([], [], 1)
       = (None,
          ([\<lparr>id_image = 1, file_name_image = ''a.png'', height_image = Some 200,
              width_image = Some 100\<rparr>,
            \<lparr>id_image = 3, file_name_image = ''c.png'', height_image = Some 200,
              width_image = Some 100\<rparr>],
           [BBoxEntry 1 1 5 [10, 20, 40, 60], BBoxEntry 2 3 5 [10, 20, 40, 60]],
           3))"
    by (simp add: example_dataset_def example_sample_def null_sample_def
        coco_instance_sample_def image_entry_of_def regions_dict_def stub_externals_def)
  from null_annotations_skipped [OF n, of stub_externals "''bboxes''" 1 "([], [], 1)" "\<lambda>k. k"
      example_dataset "([], [], [], IdGenerator_init [], 0)" "''semantic''" 1 "[]"] n run
  show ?thesis by simp
qed


text \<open>
  C8: when the task type does not fit the requested format (the six bitmap formats need
  \<open>segmentation-bitmap\<close> or \<open>segmentation-bitmap-highres\<close>, \<open>yolo\<close> needs
  \<open>vector\<close> or \<open>bboxes\<close>), \<open>export_dataset\<close> raises ValueError and the file
  system is as before the call: no folder, no file, whatever the samples are.
  \<open>export_yolo\<close> called on its own makes the same test.
\<close>

theorem export_dataset_incompatible:
  assumes "export_format \<in> set [''coco-panoptic'', ''coco-instance'', ''instance'',
               ''instance-color'', ''semantic'', ''semantic-color'']
             \<and> task_type ds \<notin> set [''segmentation-bitmap'', ''segmentation-bitmap-highres'']
           \<or> export_format = ''yolo'' \<and> task_type ds \<notin> set [''vector'', ''bboxes'']"
  shows "export_dataset draws pos X fs ds export_folder export_format id_increment
           = Some (Inl ValueError, fs)
     \<and> (export_format = ''yolo'' \<longrightarrow> export_yolo X fs ds export_folder = (Inl ValueError, fs))"
  using assms by (auto simp: export_dataset_def export_yolo_def)

theorem export_dataset_incompatible_witness:
  "task_type example_dataset \<notin> set [''segmentation-bitmap'', ''segmentation-bitmap-highres'']
   \<and> export_dataset (\<lambda>k. k) 0 stub_externals [] example_dataset ''out'' ''coco-instance'' 1
       = Some (Inl ValueError, [])"
  using export_dataset_incompatible
    [of "''coco-instance''" example_dataset "\<lambda>k. k" 0 stub_externals "[]" "''out''" 1]
  by (simp add: example_dataset_def)

end
